theory Spec2Isabelle
  imports Main "HOL-Library.Word" "HOL-Library.Monad_Syntax"
begin

section \<open>Values shared by the speech requester and the WAV encoder\<close>

text \<open>
  A Node \<open>Buffer\<close> is a sequence of bytes. The TypeScript type \<open>number\<close> is modelled as
  \<open>int\<close>: the data model of the specification gives every numeric field as an integer.
  A thrown JavaScript value is a \<open>js_error\<close>; an \<open>async\<close> function ends in a settled
  promise, either resolved with a value or rejected with the thrown error.
\<close>

type_synonym byte = "8 word"
type_synonym buffer = "byte list"

datatype js_error =
    JsError string
  | TypeError string
  | RangeError string
  | ApiError int string
  | IoError string

datatype 'a promise = Resolved 'a | Rejected js_error

section \<open>The upstream generation service\<close>

text \<open>
  The shapes of \<open>GenerateContentResponse\<close> that line 90 of
  \<open>convert_text_to_speech.ts\<close> walks through. Every link is optional in the SDK's
  typings, hence \<open>option\<close> at each level.
\<close>

record blob =
  data :: "string option"
  mimeType :: "string option"

record part =
  inlineData :: "blob option"
  part_text :: "string option"

record content =
  parts :: "part list option"
  role :: "string option"

record candidate =
  content :: "content option"
  finishReason :: "string option"

record generate_content_response =
  candidates :: "candidate list option"
  modelVersion :: "string option"

text \<open>
  The request of lines 73 to 86: the key given to the client, the model, the single text
  part, the response modality and the prebuilt voice.
\<close>

record generate_content_request =
  req_apiKey :: string
  req_model :: string
  req_contents :: "string list list"
  req_responseModalities :: "string list"
  req_voiceName :: string

text \<open>
  The service is outside the program: it is a parameter that settles each request, by a
  response or by a thrown error (network failure, SDK exception). The world the function
  can touch is the list of requests that have gone out, oldest first.
\<close>

type_synonym gemini_api = "generate_content_request \<Rightarrow> generate_content_response promise"
type_synonym network = "generate_content_request list"

section \<open>Decoding base64 as \<open>Buffer.from(data, "base64")\<close> does\<close>

text \<open>
  Node's decoder never throws on a string. It accepts the standard and the URL-safe
  alphabet, skips every character outside them, stops at the first \<open>=\<close>, and turns the
  sextets it has read into bytes, four sextets to three bytes; a trailing group of two or
  three sextets gives one or two bytes and a single trailing sextet gives none.
\<close>

definition unbase64 :: "char \<Rightarrow> nat option" where
  "unbase64 c =
     (let n = (of_char c :: nat) in
      if 65 \<le> n \<and> n \<le> 90 then Some (n - 65)
      else if 97 \<le> n \<and> n \<le> 122 then Some (n - 71)
      else if 48 \<le> n \<and> n \<le> 57 then Some (n + 4)
      else if n = 43 \<or> n = 45 then Some 62
      else if n = 47 \<or> n = 95 then Some 63
      else None)"

fun base64_sextets :: "string \<Rightarrow> nat list" where
  "base64_sextets [] = []"
| "base64_sextets (c # cs) =
     (if c = CHR ''='' then []
      else case unbase64 c of
             Some v \<Rightarrow> v # base64_sextets cs
           | None \<Rightarrow> base64_sextets cs)"

fun base64_bytes :: "nat list \<Rightarrow> buffer" where
  "base64_bytes (a # b # c # d # rest) =
     of_nat (a * 4 + b div 16) # of_nat (b mod 16 * 16 + c div 4) # of_nat (c mod 4 * 64 + d)
       # base64_bytes rest"
| "base64_bytes [a, b, c] = [of_nat (a * 4 + b div 16), of_nat (b mod 16 * 16 + c div 4)]"
| "base64_bytes [a, b] = [of_nat (a * 4 + b div 16)]"
| "base64_bytes [a] = []"
| "base64_bytes [] = []"

definition Buffer_from_base64 :: "string \<Rightarrow> buffer" where
  "Buffer_from_base64 s = base64_bytes (base64_sextets s)"

section \<open>The speech requester: \<open>convertTextToSpeech\<close>\<close>

record audio_config =
  channels :: int
  sampleRate :: int
  sampleWidth :: int
  bitDepth :: int
  voice :: string

datatype tts_result =
    Success (audioBase64: string) (audioBuffer: buffer) (audioConfig: audio_config)
  | Failure (error: string)

text \<open>
  The eight parameters of the function. The last six have default values in the
  signature: an omitted argument is \<open>None\<close> and \<open>arg_or\<close> puts the default in.
\<close>

record tts_args =
  GEMINI_API_KEY :: string
  textMessage :: string
  modelName :: "string option"
  outputAudioVoiceName :: "string option"
  outputAudioChannels :: "int option"
  outputAudioRate :: "int option"
  outputAudioSampleWidth :: "int option"
  outputAudioBitDepth :: "int option"

definition arg_or :: "'a \<Rightarrow> 'a option \<Rightarrow> 'a" where
  "arg_or d x = (case x of None \<Rightarrow> d | Some v \<Rightarrow> v)"

definition supported_model :: string where
  "supported_model = ''gemini-2.5-flash-preview-tts''"

definition tts_modelName :: "tts_args \<Rightarrow> string" where
  "tts_modelName a = arg_or supported_model (modelName a)"

definition tts_voiceName :: "tts_args \<Rightarrow> string" where
  "tts_voiceName a = arg_or ''Zephyr'' (outputAudioVoiceName a)"

definition tts_audioConfig :: "tts_args \<Rightarrow> audio_config" where
  "tts_audioConfig a =
     \<lparr> channels = arg_or 1 (outputAudioChannels a),
       sampleRate = arg_or 24000 (outputAudioRate a),
       sampleWidth = arg_or 2 (outputAudioSampleWidth a),
       bitDepth = arg_or 16 (outputAudioBitDepth a),
       voice = tts_voiceName a \<rparr>"

definition tts_request :: "tts_args \<Rightarrow> generate_content_request" where
  "tts_request a =
     \<lparr> req_apiKey = GEMINI_API_KEY a,
       req_model = tts_modelName a,
       req_contents = [[textMessage a]],
       req_responseModalities = [''AUDIO''],
       req_voiceName = tts_voiceName a \<rparr>"

text \<open>\<open>xs?.[0]\<close> on an array: \<open>undefined\<close> when the array is empty.\<close>

definition first_elem :: "'a list \<Rightarrow> 'a option" where
  "first_elem xs = (case xs of [] \<Rightarrow> None | x # _ \<Rightarrow> Some x)"

text \<open>
  Line 90, \<open>response.candidates?.[0]?.content?.parts?.[0]?.inlineData?.data\<close>: each
  \<open>?.\<close> stops the chain with \<open>undefined\<close> when what is on its left is missing.
\<close>

definition inline_audio_data :: "generate_content_response \<Rightarrow> string option" where
  "inline_audio_data response =
     candidates response \<bind> first_elem \<bind> content \<bind> parts \<bind> first_elem
       \<bind> inlineData \<bind> data"

text \<open>
  The body of the \<open>try\<close> block (lines 57 to 109). \<open>Inl e\<close> is an exception thrown inside the
  block; the request goes out only after the three checks.
\<close>

definition convertTextToSpeech_try ::
    "gemini_api \<Rightarrow> tts_args \<Rightarrow> network \<Rightarrow> (js_error + tts_result) \<times> network" where
  "convertTextToSpeech_try api a net =
     (if GEMINI_API_KEY a = [] then (Inr (Failure ''Missing keys''), net)
      else if textMessage a = [] then (Inr (Failure ''Missing textMessage.''), net)
      else if tts_modelName a \<noteq> ''gemini-2.5-flash-preview-tts'' then
        (Inr (Failure ''Internal Server Error, Try again after some time''), net)
      else
        (case api (tts_request a) of
           Rejected e \<Rightarrow> (Inl e, net @ [tts_request a])
         | Resolved response \<Rightarrow>
             (case inline_audio_data response of
                None \<Rightarrow>
                  (Inr (Failure ''No audio data received from the API.''), net @ [tts_request a])
              | Some d \<Rightarrow>
                  if d = [] then
                    (Inr (Failure ''No audio data received from the API.''),
                     net @ [tts_request a])
                  else
                    (Inr (Success d (Buffer_from_base64 d) (tts_audioConfig a)),
                     net @ [tts_request a]))))"

text \<open>
  The whole function: the \<open>catch\<close> of lines 110 to 115 turns every exception of the block
  into the generic failure. The promise it returns is what the caller sees.
\<close>

definition convertTextToSpeech ::
    "gemini_api \<Rightarrow> tts_args \<Rightarrow> network \<Rightarrow> tts_result promise \<times> network" where
  "convertTextToSpeech api a net =
     (case convertTextToSpeech_try api a net of
        (Inr r, net') \<Rightarrow> (Resolved r, net')
      | (Inl e, net') \<Rightarrow> (Resolved (Failure ''Failed to generate audio.''), net'))"

text \<open>
  The claim's reading of an absent payload, link by link: no \<open>candidates\<close>, an empty
  \<open>candidates\<close> array, a first candidate without \<open>content\<close>, content without \<open>parts\<close>, an
  empty \<open>parts\<close> array, a first part without \<open>inlineData\<close>, or inline data without \<open>data\<close>.
\<close>

definition payload_absent :: "generate_content_response \<Rightarrow> bool" where
  "payload_absent r =
     (case candidates r of
        None \<Rightarrow> True
      | Some [] \<Rightarrow> True
      | Some (c # _) \<Rightarrow>
          (case content c of
             None \<Rightarrow> True
           | Some ct \<Rightarrow>
               (case parts ct of
                  None \<Rightarrow> True
                | Some [] \<Rightarrow> True
                | Some (p # _) \<Rightarrow>
                    (case inlineData p of
                       None \<Rightarrow> True
                     | Some b \<Rightarrow> data b = None))))"

section \<open>Calls in flight\<close>

text \<open>
  \<open>convertTextToSpeech\<close> suspends once, at the \<open>await\<close> of line 75, and other calls can
  run while it waits. Up to the \<open>await\<close> it runs without interruption (lines 57 to 86): the
  three checks, and the request going out. A call that fails a check has its result at
  once; the others leave their request pending.
\<close>

definition convertTextToSpeech_before_await ::
    "tts_args \<Rightarrow> network \<Rightarrow> (tts_result + generate_content_request) \<times> network" where
  "convertTextToSpeech_before_await a net =
     (if GEMINI_API_KEY a = [] then (Inl (Failure ''Missing keys''), net)
      else if textMessage a = [] then (Inl (Failure ''Missing textMessage.''), net)
      else if tts_modelName a \<noteq> ''gemini-2.5-flash-preview-tts'' then
        (Inl (Failure ''Internal Server Error, Try again after some time''), net)
      else (Inr (tts_request a), net @ [tts_request a]))"

text \<open>
  When the request is settled the call goes on from line 88 to its end, with the
  parameters it was called with and the answer to its own request; the \<open>catch\<close> takes a
  thrown error.
\<close>

definition convertTextToSpeech_after_await ::
    "tts_args \<Rightarrow> generate_content_response promise \<Rightarrow> tts_result" where
  "convertTextToSpeech_after_await a answer =
     (case answer of
        Rejected e \<Rightarrow> Failure ''Failed to generate audio.''
      | Resolved response \<Rightarrow>
          (case inline_audio_data response of
             None \<Rightarrow> Failure ''No audio data received from the API.''
           | Some d \<Rightarrow>
               if d = [] then Failure ''No audio data received from the API.''
               else Success d (Buffer_from_base64 d) (tts_audioConfig a)))"

text \<open>
  The process in which the calls run. The module declares no variable of its own, so all
  that calls share is the network; what a suspended call keeps across its \<open>await\<close> is its
  own parameters. Calls are told apart by a number.
\<close>

record node_process =
  sent :: network
  suspended :: "nat \<rightharpoonup> tts_args"
  settled :: "nat \<rightharpoonup> tts_result"

text \<open>
  What happens in the process, one event at a time: a call is made, or the service
  settles the request of a call. The event loop runs the piece of code that an event
  starts to its end before it takes the next event, so any order of events is an
  interleaving of the calls at their \<open>await\<close>.
\<close>

datatype event =
    Call nat tts_args
  | Answer nat "generate_content_response promise"

fun event_call :: "event \<Rightarrow> nat" where
  "event_call (Call i a) = i"
| "event_call (Answer i answer) = i"

fun step :: "event \<Rightarrow> node_process \<Rightarrow> node_process" where
  "step (Call i a) p =
     (if suspended p i \<noteq> None \<or> settled p i \<noteq> None then p
      else case convertTextToSpeech_before_await a (sent p) of
             (Inl r, net) \<Rightarrow> p\<lparr> sent := net, settled := (settled p)(i \<mapsto> r) \<rparr>
           | (Inr req, net) \<Rightarrow> p\<lparr> sent := net, suspended := (suspended p)(i \<mapsto> a) \<rparr>)"
| "step (Answer i answer) p =
     (case suspended p i of
        None \<Rightarrow> p
      | Some a \<Rightarrow>
          p\<lparr> suspended := (suspended p)(i := None),
             settled := (settled p)(i \<mapsto> convertTextToSpeech_after_await a answer) \<rparr>)"

definition run :: "event list \<Rightarrow> node_process \<Rightarrow> node_process" where
  "run es p = fold step es p"

definition idle_process :: node_process where
  "idle_process = \<lparr> sent = [], suspended = Map.empty, settled = Map.empty \<rparr>"

section \<open>Writing and reading buffer fields\<close>

text \<open>
  Node's \<open>Buffer\<close> writes an unsigned integer of \<open>n\<close> bytes little-endian, and throws a
  \<open>RangeError\<close> (\<open>ERR_OUT_OF_RANGE\<close>) for a value that does not fit the \<open>n\<close> bytes.
  \<open>readUIntLE\<close> reads such a field back; it is how the theorems below say what a header
  holds.
\<close>

fun le_bytes :: "nat \<Rightarrow> int \<Rightarrow> buffer" where
  "le_bytes 0 v = []"
| "le_bytes (Suc n) v = of_int (v mod 256) # le_bytes n (v div 256)"

definition writeUIntLE :: "nat \<Rightarrow> int \<Rightarrow> js_error + buffer" where
  "writeUIntLE n v =
     (if 0 \<le> v \<and> v < 256 ^ n then Inr (le_bytes n v)
      else Inl (RangeError ''ERR_OUT_OF_RANGE''))"

definition writeUInt16LE :: "int \<Rightarrow> js_error + buffer" where
  "writeUInt16LE v = writeUIntLE 2 v"

definition writeUInt32LE :: "int \<Rightarrow> js_error + buffer" where
  "writeUInt32LE v = writeUIntLE 4 v"

fun le_value :: "buffer \<Rightarrow> int" where
  "le_value [] = 0"
| "le_value (b # bs) = uint b + 256 * le_value bs"

definition readUIntLE :: "buffer \<Rightarrow> nat \<Rightarrow> nat \<Rightarrow> int" where
  "readUIntLE buf offset n = le_value (take n (drop offset buf))"

definition readUInt16LE :: "buffer \<Rightarrow> nat \<Rightarrow> int" where
  "readUInt16LE buf offset = readUIntLE buf offset 2"

definition readUInt32LE :: "buffer \<Rightarrow> nat \<Rightarrow> int" where
  "readUInt32LE buf offset = readUIntLE buf offset 4"

definition ascii :: "string \<Rightarrow> buffer" where
  "ascii s = map (\<lambda>c. of_nat (of_char c)) s"

section \<open>The WAV encoder: \<open>saveWaveFile\<close>\<close>

text \<open>The options object that a writer is made with.\<close>

record wav_options =
  wav_channels :: int
  wav_sampleRate :: int
  wav_bitDepth :: int

text \<open>The fields of a header in order; the first field that cannot be written throws.\<close>

fun concat_fields :: "(js_error + buffer) list \<Rightarrow> js_error + buffer" where
  "concat_fields [] = Inr []"
| "concat_fields (Inl e # fs) = Inl e"
| "concat_fields (Inr b # fs) =
     (case concat_fields fs of Inl e \<Rightarrow> Inl e | Inr bs \<Rightarrow> Inr (b @ bs))"

text \<open>
  Modelled from the spec: the header that \<open>wav.FileWriter\<close> writes. The \<open>wav\<close> package is
  a dependency of the repository and none of its code is under \<open>src/\<close>. Section 4.2 of
  the specification gives the header as the canonical one of 44 bytes: the RIFF chunk
  descriptor, the \<open>fmt\<close> sub-chunk with the PCM format code, the channel count, the sample
  rate, the byte rate, the block align and the bits per sample, and the \<open>data\<close> sub-chunk
  with the length of the samples. The writer is given the bit depth, not the sample width,
  so the byte rate and the block align are computed from an eighth of it. In the
  canonical layout the channel count, the block align and the bits per sample are fields
  of two bytes and the sizes and rates are fields of four.
\<close>

definition wav_header :: "wav_options \<Rightarrow> int \<Rightarrow> js_error + buffer" where
  "wav_header opts dataLength =
     concat_fields
       [Inr (ascii ''RIFF''),
        writeUInt32LE (dataLength + 36),
        Inr (ascii ''WAVE''),
        Inr (ascii ''fmt ''),
        writeUInt32LE 16,
        writeUInt16LE 1,
        writeUInt16LE (wav_channels opts),
        writeUInt32LE (wav_sampleRate opts),
        writeUInt32LE (wav_sampleRate opts * wav_channels opts * wav_bitDepth opts div 8),
        writeUInt16LE (wav_channels opts * wav_bitDepth opts div 8),
        writeUInt16LE (wav_bitDepth opts),
        Inr (ascii ''data''),
        writeUInt32LE dataLength]"

text \<open>
  The disk: the files by path, and for each path the error, if any, that the operating
  system answers a write to it with.
\<close>

record disk =
  files :: "string \<rightharpoonup> buffer"
  io_fault :: "string \<Rightarrow> js_error option"

record file_writer =
  fw_path :: string
  fw_options :: wav_options
  fw_written :: buffer

datatype writer_event = Finish | Error js_error

text \<open>
  Modelled from the spec: the constructor of \<open>wav.FileWriter\<close> (the \<open>wav\<close> package is not
  under \<open>src/\<close>). The writer keeps the path, the options and what has been written to it.
\<close>

definition FileWriter_new :: "string \<Rightarrow> wav_options \<Rightarrow> file_writer" where
  "FileWriter_new path opts = \<lparr> fw_path = path, fw_options = opts, fw_written = [] \<rparr>"

text \<open>
  Modelled from the spec: \<open>writer.write(chunk)\<close> of \<open>wav.FileWriter\<close>. By section 4.2 the
  samples go into the file verbatim, in the order written.
\<close>

definition FileWriter_write :: "file_writer \<Rightarrow> buffer \<Rightarrow> file_writer" where
  "FileWriter_write w chunk = w\<lparr> fw_written := fw_written w @ chunk \<rparr>"

text \<open>
  Modelled from the spec: \<open>writer.end()\<close> of \<open>wav.FileWriter\<close> and the event that follows
  it. By section 4.2 the file holds the header for the samples written and then the
  samples, completion is signalled once the file is on the disk, and any I/O error
  surfaces as a failure. A header value that does not fit its field is a failure as well,
  and nothing is written then.
\<close>

definition FileWriter_end :: "file_writer \<Rightarrow> disk \<Rightarrow> writer_event \<times> disk" where
  "FileWriter_end w d =
     (case wav_header (fw_options w) (int (length (fw_written w))) of
        Inl e \<Rightarrow> (Error e, d)
      | Inr header \<Rightarrow>
          (case io_fault d (fw_path w) of
             Some e \<Rightarrow> (Error e, d)
           | None \<Rightarrow>
               (Finish, d\<lparr> files := (files d)(fw_path w \<mapsto> header @ fw_written w) \<rparr>)))"

text \<open>
  The options that lines 137 to 141 give the writer. The three format parameters have
  defaults, as those of \<open>convertTextToSpeech\<close> have; the bit depth is the sample width
  times 8.
\<close>

definition writer_options :: "int option \<Rightarrow> int option \<Rightarrow> int option \<Rightarrow> wav_options" where
  "writer_options channels' rate sampleWidth' =
     \<lparr> wav_channels = arg_or 1 channels',
       wav_sampleRate = arg_or 24000 rate,
       wav_bitDepth = arg_or 2 sampleWidth' * 8 \<rparr>"

text \<open>
  Lines 129 to 149: a writer is made, the samples are written to it in one piece and it
  is ended. The promise resolves on the writer's \<open>finish\<close> event and rejects on its
  \<open>error\<close> event.
\<close>

definition saveWaveFile ::
    "disk \<Rightarrow> string \<Rightarrow> buffer \<Rightarrow> int option \<Rightarrow> int option \<Rightarrow> int option
       \<Rightarrow> unit promise \<times> disk" where
  "saveWaveFile d filename pcmData channels' rate sampleWidth' =
     (let writer = FileWriter_new filename (writer_options channels' rate sampleWidth');
          writer = FileWriter_write writer pcmData
      in case FileWriter_end writer d of
           (Finish, d') \<Rightarrow> (Resolved (), d')
         | (Error e, d') \<Rightarrow> (Rejected e, d'))"

section \<open>The caller: \<open>testTTS\<close>\<close>

text \<open>A call with the two required arguments only, as line 156 makes it.\<close>

definition tts_call :: "string \<Rightarrow> string \<Rightarrow> tts_args" where
  "tts_call key msg =
     \<lparr> GEMINI_API_KEY = key, textMessage = msg, modelName = None,
       outputAudioVoiceName = None, outputAudioChannels = None, outputAudioRate = None,
       outputAudioSampleWidth = None, outputAudioBitDepth = None \<rparr>"

text \<open>
  Lines 161 to 177: what the caller does with a result. Of the audio configuration it
  hands the channels, the sample rate and the sample width to the encoder; a failure
  writes nothing. The console output is left out.
\<close>

definition save_result :: "disk \<Rightarrow> string \<Rightarrow> tts_result \<Rightarrow> unit promise \<times> disk" where
  "save_result d fileName result =
     (case result of
        Success b64 buf cfg \<Rightarrow>
          saveWaveFile d fileName buf
            (Some (channels cfg)) (Some (sampleRate cfg)) (Some (sampleWidth cfg))
      | Failure msg \<Rightarrow> (Resolved (), d))"

text \<open>
  Lines 155 to 178, with the environment's key (\<open>None\<close> when the variable is not set,
  which \<open>|| ""\<close> turns into the empty string).
\<close>

definition testTTS ::
    "string option \<Rightarrow> gemini_api \<Rightarrow> network \<Rightarrow> disk \<Rightarrow> unit promise \<times> network \<times> disk" where
  "testTTS env_key api net d =
     (case convertTextToSpeech api (tts_call (arg_or [] env_key) ''kya kar rhi ho meenakshi'') net of
        (Resolved result, net') \<Rightarrow>
          (case save_result d ''test_output.wav'' result of (p, d') \<Rightarrow> (p, net', d'))
      | (Rejected e, net') \<Rightarrow> (Rejected e, net', d))"

section \<open>Vocabulary of the proofs\<close>

text \<open>The 44 bytes of a header whose values all fit, and when they do.\<close>

definition header_layout :: "wav_options \<Rightarrow> int \<Rightarrow> buffer" where
  "header_layout opts n =
     ascii ''RIFF'' @ le_bytes 4 (n + 36) @ ascii ''WAVE'' @ ascii ''fmt '' @ le_bytes 4 16 @
     le_bytes 2 1 @ le_bytes 2 (wav_channels opts) @ le_bytes 4 (wav_sampleRate opts) @
     le_bytes 4 (wav_sampleRate opts * wav_channels opts * wav_bitDepth opts div 8) @
     le_bytes 2 (wav_channels opts * wav_bitDepth opts div 8) @
     le_bytes 2 (wav_bitDepth opts) @ ascii ''data'' @ le_bytes 4 n"

definition header_fits :: "wav_options \<Rightarrow> int \<Rightarrow> bool" where
  "header_fits opts n \<longleftrightarrow>
     0 \<le> n \<and> n + 36 < 4294967296 \<and>
     0 \<le> wav_channels opts \<and> wav_channels opts < 65536 \<and>
     0 \<le> wav_sampleRate opts \<and> wav_sampleRate opts < 4294967296 \<and>
     0 \<le> wav_sampleRate opts * wav_channels opts * wav_bitDepth opts div 8 \<and>
     wav_sampleRate opts * wav_channels opts * wav_bitDepth opts div 8 < 4294967296 \<and>
     0 \<le> wav_channels opts * wav_bitDepth opts div 8 \<and>
     wav_channels opts * wav_bitDepth opts div 8 < 65536 \<and>
     0 \<le> wav_bitDepth opts \<and> wav_bitDepth opts < 65536"

section \<open>Concrete services and disks\<close>

definition api_unreachable :: gemini_api where
  "api_unreachable req = Rejected (JsError ''fetch failed'')"

definition audio_response :: "string option \<Rightarrow> generate_content_response" where
  "audio_response d =
     \<lparr> candidates = Some
         [\<lparr> content = Some
              \<lparr> parts = Some
                  [\<lparr> inlineData = Some
                       \<lparr> data = d, mimeType = Some ''audio/L16;codec=pcm;rate=24000'' \<rparr>,
                     part_text = None \<rparr>],
                role = Some ''model'' \<rparr>,
            finishReason = Some ''STOP'' \<rparr>],
       modelVersion = None \<rparr>"

definition api_audio :: "string option \<Rightarrow> gemini_api" where
  "api_audio d req = Resolved (audio_response d)"

definition api_blocked :: gemini_api where
  "api_blocked req = Resolved \<lparr> candidates = Some [], modelVersion = None \<rparr>"

definition empty_disk :: disk where
  "empty_disk = \<lparr> files = Map.empty, io_fault = (\<lambda>path. None) \<rparr>"

section \<open>Facts about the decoder and the optional chain\<close>

lemma Buffer_from_base64_Man: "Buffer_from_base64 ''TWFu'' = [77, 97, 110]"
  by (simp add: Buffer_from_base64_def unbase64_def)

lemma payload_absent_iff: "payload_absent r \<longleftrightarrow> inline_audio_data r = None"
  by (auto simp add: payload_absent_def inline_audio_data_def first_elem_def
      split: option.splits list.splits Option.bind_splits)

lemma inline_audio_data_audio_response [simp]: "inline_audio_data (audio_response d) = d"
  by (simp add: inline_audio_data_def audio_response_def first_elem_def)

section \<open>The paths through \<open>convertTextToSpeech\<close>\<close>

text \<open>After the three checks the result is decided by what the service answers.\<close>

lemma passed_validation:
  assumes "GEMINI_API_KEY a \<noteq> []" and "textMessage a \<noteq> []"
    and "tts_modelName a = supported_model"
  shows "convertTextToSpeech api a net =
     (case api (tts_request a) of
        Rejected e \<Rightarrow>
          (Resolved (Failure ''Failed to generate audio.''), net @ [tts_request a])
      | Resolved response \<Rightarrow>
          (case inline_audio_data response of
             None \<Rightarrow>
               (Resolved (Failure ''No audio data received from the API.''),
                net @ [tts_request a])
           | Some d \<Rightarrow>
               if d = [] then
                 (Resolved (Failure ''No audio data received from the API.''),
                  net @ [tts_request a])
               else
                 (Resolved (Success d (Buffer_from_base64 d) (tts_audioConfig a)),
                  net @ [tts_request a])))"
  using assms
  by (simp add: convertTextToSpeech_def convertTextToSpeech_try_def supported_model_def
      split: promise.splits option.splits)

text \<open>A success tells how the call went.\<close>

lemma success_cases:
  assumes "fst (convertTextToSpeech api a net) = Resolved (Success b64 buf cfg)"
  shows "GEMINI_API_KEY a \<noteq> [] \<and> textMessage a \<noteq> [] \<and> tts_modelName a = supported_model \<and>
         (\<exists>response. api (tts_request a) = Resolved response \<and>
            inline_audio_data response = Some b64) \<and>
         b64 \<noteq> [] \<and> buf = Buffer_from_base64 b64 \<and> cfg = tts_audioConfig a"
  using assms
  by (auto simp add: convertTextToSpeech_def convertTextToSpeech_try_def supported_model_def
      split: promise.splits option.splits if_splits)

lemma tts_call_valid:
  "key \<noteq> [] \<Longrightarrow> msg \<noteq> [] \<Longrightarrow>
   GEMINI_API_KEY (tts_call key msg) \<noteq> [] \<and> textMessage (tts_call key msg) \<noteq> [] \<and>
   tts_modelName (tts_call key msg) = supported_model"
  by (simp add: tts_call_def tts_modelName_def arg_or_def)

section \<open>Calls in flight: the halves make the whole, and calls do not meet\<close>

lemma convertTextToSpeech_halves:
  "convertTextToSpeech api a net =
     (case convertTextToSpeech_before_await a net of
        (Inl r, net') \<Rightarrow> (Resolved r, net')
      | (Inr req, net') \<Rightarrow> (Resolved (convertTextToSpeech_after_await a (api req)), net'))"
  by (simp add: convertTextToSpeech_def convertTextToSpeech_try_def
      convertTextToSpeech_before_await_def convertTextToSpeech_after_await_def
      split: promise.splits option.splits)

lemma before_await_any_network:
  "fst (convertTextToSpeech_before_await a net) = fst (convertTextToSpeech_before_await a net')"
  by (simp add: convertTextToSpeech_before_await_def)

lemma run_Nil [simp]: "run [] p = p"
  by (simp add: run_def)

lemma run_Cons [simp]: "run (e # es) p = run es (step e p)"
  by (simp add: run_def)

lemma run_append: "run (xs @ ys) p = run ys (run xs p)"
  by (simp add: run_def)

text \<open>An event of another call leaves a call as it is.\<close>

lemma step_other_call:
  assumes "event_call e \<noteq> i"
  shows "suspended (step e p) i = suspended p i \<and> settled (step e p) i = settled p i"
  using assms by (cases e) (auto split: sum.splits prod.splits option.splits)

lemma run_other_calls:
  assumes "\<forall>e \<in> set es. event_call e \<noteq> i"
  shows "suspended (run es p) i = suspended p i \<and> settled (run es p) i = settled p i"
  using assms
proof (induction es arbitrary: p)
  case Nil
  then show ?case by simp
next
  case (Cons e es)
  then show ?case
    using step_other_call [of e i p] by simp
qed

text \<open>Two processes that hold a call alike still do after an event of that call.\<close>

lemma step_same_call:
  assumes "suspended p i = suspended q i" and "settled p i = settled q i"
    and "event_call e = i"
  shows "suspended (step e p) i = suspended (step e q) i \<and>
         settled (step e p) i = settled (step e q) i"
proof (cases e)
  case (Call j a)
  with assms(3) have j: "j = i" by simp
  obtain r n where bp: "convertTextToSpeech_before_await a (sent p) = (r, n)"
    by (cases "convertTextToSpeech_before_await a (sent p)")
  obtain r' n' where bq: "convertTextToSpeech_before_await a (sent q) = (r', n')"
    by (cases "convertTextToSpeech_before_await a (sent q)")
  from bp bq before_await_any_network [of a "sent p" "sent q"] have "r' = r" by simp
  with Call j assms(1,2) bp bq show ?thesis
    by (cases r) auto
next
  case (Answer j answer)
  with assms show ?thesis
    by (auto split: option.splits)
qed

lemma run_own_events:
  assumes "suspended p i = suspended q i" and "settled p i = settled q i"
  shows "suspended (run es p) i = suspended (run (filter (\<lambda>e. event_call e = i) es) q) i \<and>
         settled (run es p) i = settled (run (filter (\<lambda>e. event_call e = i) es) q) i"
  using assms
proof (induction es arbitrary: p q)
  case Nil
  then show ?case by simp
next
  case (Cons e es)
  show ?case
  proof (cases "event_call e = i")
    case True
    from step_same_call [OF Cons.prems True]
    have "suspended (step e p) i = suspended (step e q) i"
      and "settled (step e p) i = settled (step e q) i"
      by simp_all
    from Cons.IH [OF this] True show ?thesis by simp
  next
    case False
    from step_other_call [OF False, of p] Cons.prems
    have "suspended (step e p) i = suspended q i" and "settled (step e p) i = settled q i"
      by simp_all
    from Cons.IH [OF this] False show ?thesis by simp
  qed
qed

text \<open>A call alone in the process: made, then answered.\<close>

lemma run_call_alone:
  assumes "suspended p i = None" and "settled p i = None"
  shows "suspended (run [Call i a, Answer i (api (tts_request a))] p) i = None \<and>
         map_option Resolved (settled (run [Call i a, Answer i (api (tts_request a))] p) i) =
           Some (fst (convertTextToSpeech api a net))"
proof -
  obtain r n where b: "convertTextToSpeech_before_await a (sent p) = (r, n)"
    by (cases "convertTextToSpeech_before_await a (sent p)")
  obtain r' n' where b': "convertTextToSpeech_before_await a net = (r', n')"
    by (cases "convertTextToSpeech_before_await a net")
  from b b' before_await_any_network [of a "sent p" net] have same: "r' = r" by simp
  show ?thesis
  proof (cases r)
    case (Inl res)
    with assms b b' same show ?thesis
      by (simp add: convertTextToSpeech_halves)
  next
    case (Inr req)
    with b have "req = tts_request a"
      by (auto simp add: convertTextToSpeech_before_await_def split: if_splits)
    with Inr assms b b' same show ?thesis
      by (simp add: convertTextToSpeech_halves)
  qed
qed

lemma resolved_result: "map_option Resolved x = Some (Resolved r) \<Longrightarrow> x = Some r"
  by (cases x) simp_all

section \<open>The claims about the speech requester\<close>

text \<open>
  Claim C2. The checks run in the order key, text, model, and the first that fails
  decides the result: an empty key gives \<open>Missing keys\<close> whatever the text and the model
  are; a key with an empty text gives \<open>Missing textMessage.\<close> whatever the model is; a key
  and a text with a model other than the supported one give the retry message. In all
  three cases the list of requests sent is unchanged, for every service.
\<close>

theorem validation_short_circuits:
  "(GEMINI_API_KEY a = [] \<longrightarrow>
      convertTextToSpeech api a net = (Resolved (Failure ''Missing keys''), net)) \<and>
   (GEMINI_API_KEY a \<noteq> [] \<and> textMessage a = [] \<longrightarrow>
      convertTextToSpeech api a net = (Resolved (Failure ''Missing textMessage.''), net)) \<and>
   (GEMINI_API_KEY a \<noteq> [] \<and> textMessage a \<noteq> [] \<and> tts_modelName a \<noteq> supported_model \<longrightarrow>
      convertTextToSpeech api a net =
        (Resolved (Failure ''Internal Server Error, Try again after some time''), net))"
proof (intro conjI impI)
  assume "GEMINI_API_KEY a = []"
  then show "convertTextToSpeech api a net = (Resolved (Failure ''Missing keys''), net)"
    by (simp add: convertTextToSpeech_def convertTextToSpeech_try_def)
next
  assume "GEMINI_API_KEY a \<noteq> [] \<and> textMessage a = []"
  then show "convertTextToSpeech api a net =
      (Resolved (Failure ''Missing textMessage.''), net)"
    by (simp add: convertTextToSpeech_def convertTextToSpeech_try_def)
next
  assume "GEMINI_API_KEY a \<noteq> [] \<and> textMessage a \<noteq> [] \<and>
    tts_modelName a \<noteq> supported_model"
  then show "convertTextToSpeech api a net =
      (Resolved (Failure ''Internal Server Error, Try again after some time''), net)"
    by (simp add: convertTextToSpeech_def convertTextToSpeech_try_def supported_model_def)
qed

theorem validation_short_circuits_witness:
  "convertTextToSpeech (api_audio (Some ''TWFu''))
      ((tts_call [] [])\<lparr>modelName := Some ''gemini-pro''\<rparr>) []
     = (Resolved (Failure ''Missing keys''), []) \<and>
   convertTextToSpeech (api_audio (Some ''TWFu''))
      ((tts_call ''key'' [])\<lparr>modelName := Some ''gemini-pro''\<rparr>) []
     = (Resolved (Failure ''Missing textMessage.''), []) \<and>
   convertTextToSpeech (api_audio (Some ''TWFu''))
      ((tts_call ''key'' ''hello'')\<lparr>modelName := Some ''gemini-pro''\<rparr>) []
     = (Resolved (Failure ''Internal Server Error, Try again after some time''), [])"
  using
    validation_short_circuits [of "(tts_call [] [])\<lparr>modelName := Some ''gemini-pro''\<rparr>"
      "api_audio (Some ''TWFu'')" "[]"]
    validation_short_circuits [of "(tts_call ''key'' [])\<lparr>modelName := Some ''gemini-pro''\<rparr>"
      "api_audio (Some ''TWFu'')" "[]"]
    validation_short_circuits
      [of "(tts_call ''key'' ''hello'')\<lparr>modelName := Some ''gemini-pro''\<rparr>"
      "api_audio (Some ''TWFu'')" "[]"]
  by (simp add: tts_call_def tts_modelName_def supported_model_def arg_or_def)



text \<open>
  Claim C4. The promise of \<open>convertTextToSpeech\<close> is never rejected: every call resolves
  with a success or a failure. Every exception thrown inside the \<open>try\<close> block, whatever it
  is, ends in the failure \<open>Failed to generate audio.\<close>, and that is what a call comes to
  when the checks pass and the service throws.
\<close>

theorem never_throws_generic_failure:
  "(\<exists>r. fst (convertTextToSpeech api a net) = Resolved r) \<and>
   (fst (convertTextToSpeech_try api a net) = Inl e \<longrightarrow>
      fst (convertTextToSpeech api a net) = Resolved (Failure ''Failed to generate audio.'')) \<and>
   (GEMINI_API_KEY a \<noteq> [] \<and> textMessage a \<noteq> [] \<and> tts_modelName a = supported_model \<and>
    api (tts_request a) = Rejected e \<longrightarrow>
      fst (convertTextToSpeech_try api a net) = Inl e \<and>
      fst (convertTextToSpeech api a net) = Resolved (Failure ''Failed to generate audio.''))"
proof (intro conjI impI)
  show "\<exists>r. fst (convertTextToSpeech api a net) = Resolved r"
    by (cases "convertTextToSpeech_try api a net")
       (auto simp add: convertTextToSpeech_def split: sum.splits)
next
  assume "fst (convertTextToSpeech_try api a net) = Inl e"
  then show "fst (convertTextToSpeech api a net) = Resolved (Failure ''Failed to generate audio.'')"
    by (cases "convertTextToSpeech_try api a net") (simp add: convertTextToSpeech_def)
next
  assume h: "GEMINI_API_KEY a \<noteq> [] \<and> textMessage a \<noteq> [] \<and> tts_modelName a = supported_model \<and>
    api (tts_request a) = Rejected e"
  then show "fst (convertTextToSpeech_try api a net) = Inl e"
    by (simp add: convertTextToSpeech_try_def supported_model_def)
  from h show "fst (convertTextToSpeech api a net) = Resolved (Failure ''Failed to generate audio.'')"
    by (simp add: passed_validation)
qed

theorem never_throws_generic_failure_witness:
  "fst (convertTextToSpeech_try api_unreachable (tts_call ''key'' ''hello'') [])
     = Inl (JsError ''fetch failed'') \<and>
   fst (convertTextToSpeech api_unreachable (tts_call ''key'' ''hello'') [])
     = Resolved (Failure ''Failed to generate audio.'')"
proof -
  have "GEMINI_API_KEY (tts_call ''key'' ''hello'') \<noteq> [] \<and>
        textMessage (tts_call ''key'' ''hello'') \<noteq> [] \<and>
        tts_modelName (tts_call ''key'' ''hello'') = supported_model \<and>
        api_unreachable (tts_request (tts_call ''key'' ''hello''))
          = Rejected (JsError ''fetch failed'')"
    by (simp add: tts_call_valid api_unreachable_def)
  with never_throws_generic_failure [of api_unreachable "tts_call ''key'' ''hello''" "[]"
      "JsError ''fetch failed''"]
  show ?thesis by blast
qed

text \<open>
  Claim C5. The audio configuration of a success holds the caller's arguments (the
  default where one was omitted): the channels, the sample rate, the sample width, the
  bit depth and the voice name. The service has no part in it: every other successful
  call with the same arguments, whatever the service and whatever it answered, returns
  the same configuration.
\<close>

theorem audio_config_echoes_arguments:
  assumes "fst (convertTextToSpeech api a net) = Resolved (Success b64 buf cfg)"
  shows "channels cfg = arg_or 1 (outputAudioChannels a) \<and>
         sampleRate cfg = arg_or 24000 (outputAudioRate a) \<and>
         sampleWidth cfg = arg_or 2 (outputAudioSampleWidth a) \<and>
         bitDepth cfg = arg_or 16 (outputAudioBitDepth a) \<and>
         voice cfg = arg_or ''Zephyr'' (outputAudioVoiceName a) \<and>
         (\<forall>api' net' b64' buf' cfg'.
            fst (convertTextToSpeech api' a net') = Resolved (Success b64' buf' cfg') \<longrightarrow>
            cfg' = cfg)"
proof -
  from success_cases [OF assms] have cfg: "cfg = tts_audioConfig a" by simp
  have "cfg' = cfg"
    if "fst (convertTextToSpeech api' a net') = Resolved (Success b64' buf' cfg')"
    for api' net' b64' buf' cfg'
    using success_cases [OF that] cfg by simp
  with cfg show ?thesis
    by (simp add: tts_audioConfig_def tts_voiceName_def)
qed

theorem audio_config_echoes_arguments_witness:
  "\<exists>b64 buf cfg.
     fst (convertTextToSpeech (api_audio (Some ''TWFu''))
            ((tts_call ''key'' ''hello'')
               \<lparr> outputAudioVoiceName := Some ''Kore'', outputAudioChannels := Some 2,
                 outputAudioRate := Some 48000, outputAudioSampleWidth := Some 3,
                 outputAudioBitDepth := Some 24 \<rparr>) [])
       = Resolved (Success b64 buf cfg) \<and>
     channels cfg = 2 \<and> sampleRate cfg = 48000 \<and> sampleWidth cfg = 3 \<and> bitDepth cfg = 24 \<and>
     voice cfg = ''Kore''"
proof -
  let ?a = "(tts_call ''key'' ''hello'')
               \<lparr> outputAudioVoiceName := Some ''Kore'', outputAudioChannels := Some 2,
                 outputAudioRate := Some 48000, outputAudioSampleWidth := Some 3,
                 outputAudioBitDepth := Some 24 \<rparr>"
  have valid: "GEMINI_API_KEY ?a \<noteq> []" "textMessage ?a \<noteq> []"
      "tts_modelName ?a = supported_model"
    by (simp_all add: tts_call_def tts_modelName_def arg_or_def)
  have run: "fst (convertTextToSpeech (api_audio (Some ''TWFu'')) ?a [])
      = Resolved (Success ''TWFu'' (Buffer_from_base64 ''TWFu'') (tts_audioConfig ?a))"
    by (simp add: passed_validation [OF valid] api_audio_def)
  from audio_config_echoes_arguments [OF run]
  have "channels (tts_audioConfig ?a) = 2 \<and> sampleRate (tts_audioConfig ?a) = 48000 \<and>
        sampleWidth (tts_audioConfig ?a) = 3 \<and> bitDepth (tts_audioConfig ?a) = 24 \<and>
        voice (tts_audioConfig ?a) = ''Kore''"
    by (simp add: arg_or_def tts_call_def)
  with run show ?thesis by blast
qed

text \<open>
  Claim C6. When the checks pass and the service answers with a response in which a link
  on the way to the first candidate's first part's inline data is absent, the result is
  the failure \<open>No audio data received from the API.\<close>
\<close>

theorem missing_payload_fails:
  assumes "GEMINI_API_KEY a \<noteq> []" and "textMessage a \<noteq> []"
    and "tts_modelName a = supported_model"
    and "api (tts_request a) = Resolved response"
    and "payload_absent response"
  shows "fst (convertTextToSpeech api a net) =
           Resolved (Failure ''No audio data received from the API.'')"
  using assms by (simp add: passed_validation payload_absent_iff)

theorem missing_payload_fails_witness:
  "payload_absent \<lparr> candidates = Some [], modelVersion = None \<rparr> \<and>
   payload_absent (audio_response None) \<and>
   fst (convertTextToSpeech api_blocked (tts_call ''key'' ''hello'') []) =
     Resolved (Failure ''No audio data received from the API.'') \<and>
   fst (convertTextToSpeech (api_audio None) (tts_call ''key'' ''hello'') []) =
     Resolved (Failure ''No audio data received from the API.'')"
proof -
  have valid: "GEMINI_API_KEY (tts_call ''key'' ''hello'') \<noteq> []"
      "textMessage (tts_call ''key'' ''hello'') \<noteq> []"
      "tts_modelName (tts_call ''key'' ''hello'') = supported_model"
    using tts_call_valid [of "''key''" "''hello''"] by simp_all
  have absent: "payload_absent \<lparr> candidates = Some [], modelVersion = None \<rparr>"
      "payload_absent (audio_response None)"
    by (simp_all add: payload_absent_def audio_response_def)
  have blocked: "fst (convertTextToSpeech api_blocked (tts_call ''key'' ''hello'') []) =
     Resolved (Failure ''No audio data received from the API.'')"
    by (rule missing_payload_fails
          [where api = api_blocked
             and response = "\<lparr> candidates = Some [], modelVersion = None \<rparr>"])
       (simp_all add: valid absent api_blocked_def)
  have no_data: "fst (convertTextToSpeech (api_audio None) (tts_call ''key'' ''hello'') []) =
     Resolved (Failure ''No audio data received from the API.'')"
    by (rule missing_payload_fails
          [where api = "api_audio None" and response = "audio_response None"])
       (simp_all add: valid absent api_audio_def)
  from absent blocked no_data show ?thesis by simp
qed

text \<open>
  Claim C9. The result of a call is a function of its own arguments and of what the
  service answers to its own request. Two services that answer this request alike give
  the same result, whatever requests went out before; a call made earlier, with any
  arguments and any service, changes nothing in the result; and the only trace a call
  leaves is its own request at the end of the list of requests sent. The same holds for
  calls that run concurrently: in every interleaving of a call with the events of other
  calls, before it, while it waits at its \<open>await\<close> and after it, whatever the arguments
  and the answers of those calls are, the call settles with the result it has when it
  runs alone; and in any sequence of events at all, a call settles as it does in the
  sequence of its own events.
\<close>

theorem result_depends_on_own_call_only:
  "(api (tts_request a) = api' (tts_request a) \<longrightarrow>
      fst (convertTextToSpeech api a net) = fst (convertTextToSpeech api' a net')) \<and>
   fst (convertTextToSpeech api a (snd (convertTextToSpeech api'' b net))) =
     fst (convertTextToSpeech api a net) \<and>
   (snd (convertTextToSpeech api a net) = net \<or>
    snd (convertTextToSpeech api a net) = net @ [tts_request a]) \<and>
   ((\<forall>e \<in> set before. event_call e \<noteq> i) \<and> (\<forall>e \<in> set during. event_call e \<noteq> i) \<and>
    (\<forall>e \<in> set after. event_call e \<noteq> i) \<and> suspended p i = None \<and> settled p i = None \<longrightarrow>
      map_option Resolved
        (settled (run (before @ Call i a # during @ Answer i (api (tts_request a)) # after) p) i)
        = Some (fst (convertTextToSpeech api a net))) \<and>
   settled (run es p) i = settled (run (filter (\<lambda>e. event_call e = i) es) p) i"
proof (intro conjI impI)
  have indep: "fst (convertTextToSpeech f a n) = fst (convertTextToSpeech g a n')"
    if "f (tts_request a) = g (tts_request a)" for f g :: gemini_api and n n'
    using that
    by (simp add: convertTextToSpeech_def convertTextToSpeech_try_def
        split: promise.splits option.splits)
  show "fst (convertTextToSpeech api a net) = fst (convertTextToSpeech api' a net')"
    if "api (tts_request a) = api' (tts_request a)"
    using that by (rule indep)
  show "fst (convertTextToSpeech api a (snd (convertTextToSpeech api'' b net))) =
     fst (convertTextToSpeech api a net)"
    by (rule indep) simp
  show "snd (convertTextToSpeech api a net) = net \<or>
        snd (convertTextToSpeech api a net) = net @ [tts_request a]"
    by (simp add: convertTextToSpeech_def convertTextToSpeech_try_def
        split: promise.splits option.splits)
next
  let ?own = "\<lambda>e. event_call e = i"
  let ?trace = "before @ Call i a # during @ Answer i (api (tts_request a)) # after"
  assume h: "(\<forall>e \<in> set before. event_call e \<noteq> i) \<and> (\<forall>e \<in> set during. event_call e \<noteq> i) \<and>
    (\<forall>e \<in> set after. event_call e \<noteq> i) \<and> suspended p i = None \<and> settled p i = None"
  then have "filter ?own before = []" "filter ?own during = []" "filter ?own after = []"
    by (simp_all add: filter_empty_conv)
  then have own: "filter ?own ?trace = [Call i a, Answer i (api (tts_request a))]"
    by simp
  have "settled (run ?trace p) i = settled (run (filter ?own ?trace) p) i"
    using run_own_events [of p i p ?trace] by simp
  also have "map_option Resolved (settled (run (filter ?own ?trace) p) i) =
      Some (fst (convertTextToSpeech api a net))"
    unfolding own using run_call_alone [of p i a api net] h by simp
  finally show "map_option Resolved (settled (run ?trace p) i) =
      Some (fst (convertTextToSpeech api a net))" .
next
  show "settled (run es p) i = settled (run (filter (\<lambda>e. event_call e = i) es) p) i"
    using run_own_events [of p i p es] by simp
qed

theorem result_depends_on_own_call_only_witness:
  "api_audio (Some ''TWFu'') (tts_request (tts_call ''key'' ''hello'')) =
     (api_unreachable (tts_request (tts_call ''key'' ''hello'') :=
        Resolved (audio_response (Some ''TWFu''))))
       (tts_request (tts_call ''key'' ''hello'')) \<and>
   fst (convertTextToSpeech (api_audio (Some ''TWFu'')) (tts_call ''key'' ''hello'') []) =
   fst (convertTextToSpeech
          (api_unreachable (tts_request (tts_call ''key'' ''hello'') :=
             Resolved (audio_response (Some ''TWFu''))))
          (tts_call ''key'' ''hello'')
          [tts_request (tts_call ''other key'' ''another text'')]) \<and>
   settled
     (run [Call 1 (tts_call ''key'' ''hello''),
           Call 2 ((tts_call ''other key'' ''another text'')
                     \<lparr> outputAudioVoiceName := Some ''Kore'', outputAudioChannels := Some 2 \<rparr>),
           Answer 2 (Resolved (audio_response (Some ''AAAA''))),
           Answer 1 (api_audio (Some ''TWFu'') (tts_request (tts_call ''key'' ''hello'')))]
        idle_process) 1
     = Some (Success ''TWFu'' [77, 97, 110]
         \<lparr> channels = 1, sampleRate = 24000, sampleWidth = 2, bitDepth = 16,
           voice = ''Zephyr'' \<rparr>)"
proof -
  let ?a = "tts_call ''key'' ''hello''"
  let ?b = "(tts_call ''other key'' ''another text'')
              \<lparr> outputAudioVoiceName := Some ''Kore'', outputAudioChannels := Some 2 \<rparr>"
  let ?api = "api_audio (Some ''TWFu'')"
  let ?api' = "api_unreachable (tts_request ?a := Resolved (audio_response (Some ''TWFu'')))"
  let ?during = "[Call 2 ?b, Answer 2 (Resolved (audio_response (Some ''AAAA'')))]"
  note C9 = result_depends_on_own_call_only
    [where api = ?api and a = ?a and api' = ?api' and net = "[]"
       and net' = "[tts_request (tts_call ''other key'' ''another text'')]"
       and before = "[]" and during = ?during and after = "[]" and i = 1 and p = idle_process]
  have same: "?api (tts_request ?a) = ?api' (tts_request ?a)"
    by (simp add: api_audio_def)
  have valid: "GEMINI_API_KEY ?a \<noteq> []" "textMessage ?a \<noteq> []" "tts_modelName ?a = supported_model"
    using tts_call_valid [of "''key''" "''hello''"] by simp_all
  have alone: "fst (convertTextToSpeech ?api ?a []) =
      Resolved (Success ''TWFu'' [77, 97, 110]
         \<lparr> channels = 1, sampleRate = 24000, sampleWidth = 2, bitDepth = 16,
           voice = ''Zephyr'' \<rparr>)"
  proof -
    have "fst (convertTextToSpeech ?api ?a [])
       = Resolved (Success ''TWFu'' (Buffer_from_base64 ''TWFu'') (tts_audioConfig ?a))"
      by (simp add: passed_validation [OF valid] api_audio_def)
    then show ?thesis
      by (simp add: Buffer_from_base64_Man tts_audioConfig_def tts_voiceName_def arg_or_def
          tts_call_def)
  qed
  have hyps: "(\<forall>e \<in> set []. event_call e \<noteq> (1 :: nat)) \<and>
      (\<forall>e \<in> set ?during. event_call e \<noteq> 1) \<and>
      (\<forall>e \<in> set []. event_call e \<noteq> (1 :: nat)) \<and>
      suspended idle_process 1 = None \<and> settled idle_process 1 = None"
    by (simp add: idle_process_def)
  note interleaved = C9 [THEN conjunct2, THEN conjunct2, THEN conjunct2, THEN conjunct1, THEN mp]
  have "map_option Resolved
      (settled (run ([] @ Call 1 ?a # ?during @ Answer 1 (?api (tts_request ?a)) # []) idle_process) 1)
      = Some (Resolved (Success ''TWFu'' [77, 97, 110]
         \<lparr> channels = 1, sampleRate = 24000, sampleWidth = 2, bitDepth = 16,
           voice = ''Zephyr'' \<rparr>))"
    unfolding alone [symmetric] by (rule interleaved [OF hyps])
  then have "settled (run ([] @ Call 1 ?a # ?during @ Answer 1 (?api (tts_request ?a)) # [])
        idle_process) 1
      = Some (Success ''TWFu'' [77, 97, 110]
         \<lparr> channels = 1, sampleRate = 24000, sampleWidth = 2, bitDepth = 16,
           voice = ''Zephyr'' \<rparr>)"
    by (rule resolved_result)
  then have "settled (run [Call 1 ?a, Call 2 ?b,
        Answer 2 (Resolved (audio_response (Some ''AAAA''))),
        Answer 1 (?api (tts_request ?a))] idle_process) 1
      = Some (Success ''TWFu'' [77, 97, 110]
         \<lparr> channels = 1, sampleRate = 24000, sampleWidth = 2, bitDepth = 16,
           voice = ''Zephyr'' \<rparr>)"
    by (simp only: append_Nil append_Cons)
  moreover from C9 same
  have "fst (convertTextToSpeech ?api ?a []) =
        fst (convertTextToSpeech ?api' ?a [tts_request (tts_call ''other key'' ''another text'')])"
    by blast
  ultimately show ?thesis
    using same by (intro conjI)
qed

text \<open>
  Claim C10. An inline payload that is present but is the empty string is treated as an
  absent one: when the checks pass and the service answers with it, the result is the
  failure \<open>No audio data received from the API.\<close> Hence the \<open>audioBase64\<close> of a success is
  never the empty string.
\<close>

theorem empty_payload_fails:
  "(GEMINI_API_KEY a \<noteq> [] \<and> textMessage a \<noteq> [] \<and> tts_modelName a = supported_model \<and>
    api (tts_request a) = Resolved response \<and> inline_audio_data response = Some [] \<longrightarrow>
      fst (convertTextToSpeech api a net) =
        Resolved (Failure ''No audio data received from the API.'')) \<and>
   (fst (convertTextToSpeech api a net) = Resolved (Success b64 buf cfg) \<longrightarrow> b64 \<noteq> [])"
proof (intro conjI impI)
  assume "GEMINI_API_KEY a \<noteq> [] \<and> textMessage a \<noteq> [] \<and> tts_modelName a = supported_model \<and>
    api (tts_request a) = Resolved response \<and> inline_audio_data response = Some []"
  then show "fst (convertTextToSpeech api a net) =
        Resolved (Failure ''No audio data received from the API.'')"
    by (simp add: passed_validation)
next
  assume "fst (convertTextToSpeech api a net) = Resolved (Success b64 buf cfg)"
  from success_cases [OF this] show "b64 \<noteq> []" by simp
qed

theorem empty_payload_fails_witness:
  "inline_audio_data (audio_response (Some [])) = Some [] \<and>
   fst (convertTextToSpeech (api_audio (Some [])) (tts_call ''key'' ''hello'') []) =
     Resolved (Failure ''No audio data received from the API.'')"
proof -
  have "GEMINI_API_KEY (tts_call ''key'' ''hello'') \<noteq> [] \<and>
        textMessage (tts_call ''key'' ''hello'') \<noteq> [] \<and>
        tts_modelName (tts_call ''key'' ''hello'') = supported_model \<and>
        api_audio (Some []) (tts_request (tts_call ''key'' ''hello''))
          = Resolved (audio_response (Some [])) \<and>
        inline_audio_data (audio_response (Some [])) = Some []"
    by (simp add: tts_call_valid api_audio_def)
  with empty_payload_fails [of "tts_call ''key'' ''hello''" "api_audio (Some [])"
      "audio_response (Some [])" "[]"]
  show ?thesis by blast
qed

section \<open>Facts about buffer fields and the header\<close>

lemma length_le_bytes [simp]: "length (le_bytes n v) = n"
  by (induction n arbitrary: v) simp_all

lemma length_ascii [simp]: "length (ascii s) = length s"
  by (simp add: ascii_def)

text \<open>A value that fits its field is read back as it was written.\<close>

lemma le_value_le_bytes: "0 \<le> v \<Longrightarrow> v < 256 ^ n \<Longrightarrow> le_value (le_bytes n v) = v"
proof (induction n arbitrary: v)
  case 0
  then show ?case by simp
next
  case (Suc n)
  have "v div 256 < 256 ^ n"
    using Suc.prems by simp
  moreover have "0 \<le> v div 256"
    using Suc.prems by simp
  ultimately have "le_value (le_bytes n (v div 256)) = v div 256"
    by (rule Suc.IH [rotated])
  moreover have "uint (word_of_int (v mod 256) :: byte) = v mod 256"
    by (simp add: uint_word_of_int)
  ultimately show ?case by simp
qed

text \<open>Whatever bytes a field holds, they read as a value that fits the field.\<close>

lemma le_value_bound: "0 \<le> le_value bs \<and> le_value bs < 256 ^ length bs"
proof (induction bs)
  case Nil
  then show ?case by simp
next
  case (Cons b bs)
  have "uint b < 256"
    using uint_bounded [of b] by simp
  moreover have "0 \<le> uint b"
    by simp
  ultimately show ?case
    using Cons.IH by simp
qed

lemma readUInt16LE_bound: "readUInt16LE buf offset < 65536"
proof -
  have "le_value (take 2 (drop offset buf)) < 256 ^ length (take 2 (drop offset buf))"
    using le_value_bound by blast
  also have "\<dots> \<le> (256 :: int) ^ 2"
    by (rule power_increasing) simp_all
  finally show ?thesis
    by (simp add: readUInt16LE_def readUIntLE_def)
qed

lemma readUInt32LE_bound: "readUInt32LE buf offset < 4294967296"
proof -
  have "le_value (take 4 (drop offset buf)) < 256 ^ length (take 4 (drop offset buf))"
    using le_value_bound by blast
  also have "\<dots> \<le> (256 :: int) ^ 4"
    by (rule power_increasing) simp_all
  finally show ?thesis
    by (simp add: readUInt32LE_def readUIntLE_def)
qed

lemma writeUIntLE_fits: "0 \<le> v \<Longrightarrow> v < 256 ^ n \<Longrightarrow> writeUIntLE n v = Inr (le_bytes n v)"
  by (simp add: writeUIntLE_def)

lemma wav_header_fits:
  assumes "header_fits opts n"
  shows "wav_header opts n = Inr (header_layout opts n)"
proof -
  have w: "writeUInt32LE (n + 36) = Inr (le_bytes 4 (n + 36))"
      "writeUInt32LE 16 = Inr (le_bytes 4 16)"
      "writeUInt16LE 1 = Inr (le_bytes 2 1)"
      "writeUInt16LE (wav_channels opts) = Inr (le_bytes 2 (wav_channels opts))"
      "writeUInt32LE (wav_sampleRate opts) = Inr (le_bytes 4 (wav_sampleRate opts))"
      "writeUInt32LE (wav_sampleRate opts * wav_channels opts * wav_bitDepth opts div 8)
         = Inr (le_bytes 4 (wav_sampleRate opts * wav_channels opts * wav_bitDepth opts div 8))"
      "writeUInt16LE (wav_channels opts * wav_bitDepth opts div 8)
         = Inr (le_bytes 2 (wav_channels opts * wav_bitDepth opts div 8))"
      "writeUInt16LE (wav_bitDepth opts) = Inr (le_bytes 2 (wav_bitDepth opts))"
      "writeUInt32LE n = Inr (le_bytes 4 n)"
    using assms unfolding header_fits_def writeUInt32LE_def writeUInt16LE_def
    by (simp_all add: writeUIntLE_fits)
  show ?thesis
    unfolding wav_header_def w by (simp add: header_layout_def)
qed

lemma length_header_layout [simp]: "length (header_layout opts n) = 44"
  by (simp add: header_layout_def)

text \<open>What each field of a header that fits reads as, with the samples after it.\<close>

lemma header_layout_fields:
  assumes "header_fits opts n"
  shows "take 4 (header_layout opts n @ pcm) = ascii ''RIFF''"
    and "readUInt32LE (header_layout opts n @ pcm) 4 = n + 36"
    and "take 4 (drop 8 (header_layout opts n @ pcm)) = ascii ''WAVE''"
    and "take 4 (drop 12 (header_layout opts n @ pcm)) = ascii ''fmt ''"
    and "readUInt32LE (header_layout opts n @ pcm) 16 = 16"
    and "readUInt16LE (header_layout opts n @ pcm) 20 = 1"
    and "readUInt16LE (header_layout opts n @ pcm) 22 = wav_channels opts"
    and "readUInt32LE (header_layout opts n @ pcm) 24 = wav_sampleRate opts"
    and "readUInt32LE (header_layout opts n @ pcm) 28
           = wav_sampleRate opts * wav_channels opts * wav_bitDepth opts div 8"
    and "readUInt16LE (header_layout opts n @ pcm) 32
           = wav_channels opts * wav_bitDepth opts div 8"
    and "readUInt16LE (header_layout opts n @ pcm) 34 = wav_bitDepth opts"
    and "take 4 (drop 36 (header_layout opts n @ pcm)) = ascii ''data''"
    and "readUInt32LE (header_layout opts n @ pcm) 40 = n"
    and "drop 44 (header_layout opts n @ pcm) = pcm"
  using assms
  unfolding header_fits_def header_layout_def readUInt32LE_def readUInt16LE_def readUIntLE_def
  by (simp_all add: le_value_le_bytes)

lemma saveWaveFile_fits:
  assumes "header_fits (writer_options c r w) (int (length pcm))"
    and "io_fault d filename = None"
  shows "saveWaveFile d filename pcm c r w =
           (Resolved (),
            d\<lparr> files := (files d)
                 (filename \<mapsto> header_layout (writer_options c r w) (int (length pcm)) @ pcm) \<rparr>)"
  using assms
  by (simp add: saveWaveFile_def FileWriter_new_def FileWriter_write_def FileWriter_end_def
      wav_header_fits)

text \<open>
  The header is written exactly when every value fits its field; otherwise the first
  field that does not fit throws.
\<close>

lemma concat_fields_all_Inr:
  "concat_fields fs = Inr bs \<Longrightarrow> f \<in> set fs \<Longrightarrow> \<exists>b. f = Inr b"
  by (induction fs arbitrary: bs rule: concat_fields.induct) (auto split: sum.splits)

lemma concat_fields_error:
  assumes "concat_fields fs = Inl e"
  shows "Inl e \<in> set fs"
  using assms
  by (induction fs rule: concat_fields.induct) (auto split: sum.splits)

lemma writeUIntLE_Inr_iff: "(\<exists>b. writeUIntLE k v = Inr b) \<longleftrightarrow> 0 \<le> v \<and> v < 256 ^ k"
  by (simp add: writeUIntLE_def)

lemma writeUInt_error:
  "writeUInt16LE v = Inl e \<Longrightarrow> e = RangeError ''ERR_OUT_OF_RANGE''"
  "writeUInt32LE v = Inl e \<Longrightarrow> e = RangeError ''ERR_OUT_OF_RANGE''"
  by (simp_all add: writeUInt16LE_def writeUInt32LE_def writeUIntLE_def split: if_splits)

lemma wav_header_Inr_fits:
  assumes "wav_header opts n = Inr h"
  shows "header_fits opts n"
proof -
  note mem = concat_fields_all_Inr [OF assms [unfolded wav_header_def]]
  have "\<exists>b. writeUInt32LE (n + 36) = Inr b"
    by (rule mem) simp
  moreover have "\<exists>b. writeUInt16LE (wav_channels opts) = Inr b"
    by (rule mem) simp
  moreover have "\<exists>b. writeUInt32LE (wav_sampleRate opts) = Inr b"
    by (rule mem) simp
  moreover have "\<exists>b. writeUInt32LE
      (wav_sampleRate opts * wav_channels opts * wav_bitDepth opts div 8) = Inr b"
    by (rule mem) simp
  moreover have "\<exists>b. writeUInt16LE (wav_channels opts * wav_bitDepth opts div 8) = Inr b"
    by (rule mem) simp
  moreover have "\<exists>b. writeUInt16LE (wav_bitDepth opts) = Inr b"
    by (rule mem) simp
  moreover have "\<exists>b. writeUInt32LE n = Inr b"
    by (rule mem) simp
  ultimately show ?thesis
    unfolding writeUInt32LE_def writeUInt16LE_def writeUIntLE_Inr_iff header_fits_def
    by simp
qed

lemma wav_header_overflow:
  assumes "\<not> header_fits opts n"
  shows "wav_header opts n = Inl (RangeError ''ERR_OUT_OF_RANGE'')"
proof (cases "wav_header opts n")
  case (Inr h)
  with assms wav_header_Inr_fits show ?thesis
    by blast
next
  case (Inl e)
  from concat_fields_error [OF Inl [unfolded wav_header_def]]
  have "e = RangeError ''ERR_OUT_OF_RANGE''"
    by (auto dest: writeUInt_error [OF sym])
  with Inl show ?thesis
    by simp
qed

text \<open>
  When the promise of \<open>saveWaveFile\<close> resolves, and that a rejected one leaves the disk as
  it was.
\<close>

lemma saveWaveFile_resolves_iff:
  "fst (saveWaveFile d filename pcm c r w) = Resolved () \<longleftrightarrow>
     header_fits (writer_options c r w) (int (length pcm)) \<and> io_fault d filename = None"
proof (cases "header_fits (writer_options c r w) (int (length pcm))")
  case True
  then show ?thesis
    by (simp add: saveWaveFile_def FileWriter_new_def FileWriter_write_def FileWriter_end_def
        wav_header_fits Let_def split: option.splits)
next
  case False
  then show ?thesis
    by (simp add: saveWaveFile_def FileWriter_new_def FileWriter_write_def FileWriter_end_def
        wav_header_overflow)
qed

lemma saveWaveFile_rejected_writes_nothing:
  "fst (saveWaveFile d filename pcm c r w) = Rejected e \<Longrightarrow>
   snd (saveWaveFile d filename pcm c r w) = d"
  by (auto simp add: saveWaveFile_def FileWriter_new_def FileWriter_write_def FileWriter_end_def
      Let_def split: sum.splits option.splits)

text \<open>Without a key in the environment the caller sends nothing and writes nothing.\<close>

lemma testTTS_without_key: "testTTS None api net d = (Resolved (), net, d)"
  by (simp add: testTTS_def tts_call_def arg_or_def convertTextToSpeech_def
      convertTextToSpeech_try_def save_result_def)

lemma writer_options_fits:
  assumes "arg_or 1 channels' = ch" and "arg_or 24000 rate = r" and "arg_or 2 sampleWidth' = sw"
    and "0 \<le> ch" and "ch < 65536" and "0 \<le> r" and "r < 4294967296"
    and "0 \<le> sw" and "sw * 8 < 65536"
    and "r * ch * sw < 4294967296" and "ch * sw < 65536"
    and "0 \<le> n" and "n + 36 < 4294967296"
  shows "header_fits (writer_options channels' rate sampleWidth') n"
    and "wav_channels (writer_options channels' rate sampleWidth') = ch"
    and "wav_sampleRate (writer_options channels' rate sampleWidth') = r"
    and "wav_bitDepth (writer_options channels' rate sampleWidth') = sw * 8"
    and "wav_sampleRate (writer_options channels' rate sampleWidth') *
         wav_channels (writer_options channels' rate sampleWidth') *
         wav_bitDepth (writer_options channels' rate sampleWidth') div 8 = r * ch * sw"
    and "wav_channels (writer_options channels' rate sampleWidth') *
         wav_bitDepth (writer_options channels' rate sampleWidth') div 8 = ch * sw"
proof -
  have prod: "r * ch * (sw * 8) div 8 = r * ch * sw" "ch * (sw * 8) div 8 = ch * sw"
    by simp_all
  have nonneg: "0 \<le> r * ch * sw" "0 \<le> ch * sw"
    using assms(4,6,8) by simp_all
  show "header_fits (writer_options channels' rate sampleWidth') n"
    unfolding header_fits_def writer_options_def using assms nonneg by (simp add: prod)
  show "wav_channels (writer_options channels' rate sampleWidth') = ch"
    and "wav_sampleRate (writer_options channels' rate sampleWidth') = r"
    and "wav_bitDepth (writer_options channels' rate sampleWidth') = sw * 8"
    using assms(1-3) by (simp_all add: writer_options_def)
  show "wav_sampleRate (writer_options channels' rate sampleWidth') *
         wav_channels (writer_options channels' rate sampleWidth') *
         wav_bitDepth (writer_options channels' rate sampleWidth') div 8 = r * ch * sw"
    and "wav_channels (writer_options channels' rate sampleWidth') *
         wav_bitDepth (writer_options channels' rate sampleWidth') div 8 = ch * sw"
    using assms(1-3) by (simp_all add: writer_options_def)
qed

section \<open>The claims about the WAV encoder\<close>

text \<open>
  Claim C1, amended. For every path whose write meets no I/O error, every PCM buffer of
  \<open>N\<close> bytes with \<open>N + 36 < 2^32\<close>, and every channel count, sample rate and sample width
  whose header values fit their fields (the channel count, the block align and the bits
  per sample below \<open>2^16\<close>, the sample rate and the byte rate below \<open>2^32\<close>, none negative),
  \<open>saveWaveFile\<close> resolves and leaves at the path a file of exactly \<open>44 + N\<close> bytes: the
  header \<open>RIFF\<close>, chunk size \<open>36 + N\<close>, \<open>WAVE\<close>, \<open>fmt\<close> with size 16 and format code 1,
  the given channel count and sample rate, byte rate = sample rate \<times> channels \<times>
  sample width, block align = channels \<times> sample width, bits per sample = sample width
  \<times> 8, then \<open>data\<close> with size \<open>N\<close>, followed by the PCM bytes unmodified.
\<close>

theorem wav_file_layout:
  assumes "arg_or 1 channels' = ch" and "arg_or 24000 rate = r" and "arg_or 2 sampleWidth' = sw"
    and "0 \<le> ch" and "ch < 65536" and "0 \<le> r" and "r < 4294967296"
    and "0 \<le> sw" and "sw * 8 < 65536"
    and "r * ch * sw < 4294967296" and "ch * sw < 65536"
    and "int (length pcmData) + 36 < 4294967296"
    and "io_fault d filename = None"
  shows "\<exists>file.
           saveWaveFile d filename pcmData channels' rate sampleWidth' =
             (Resolved (), d\<lparr> files := (files d)(filename \<mapsto> file) \<rparr>) \<and>
           length file = 44 + length pcmData \<and>
           take 4 file = ascii ''RIFF'' \<and>
           readUInt32LE file 4 = int (length pcmData) + 36 \<and>
           take 4 (drop 8 file) = ascii ''WAVE'' \<and>
           take 4 (drop 12 file) = ascii ''fmt '' \<and>
           readUInt32LE file 16 = 16 \<and>
           readUInt16LE file 20 = 1 \<and>
           readUInt16LE file 22 = ch \<and>
           readUInt32LE file 24 = r \<and>
           readUInt32LE file 28 = r * ch * sw \<and>
           readUInt16LE file 32 = ch * sw \<and>
           readUInt16LE file 34 = sw * 8 \<and>
           take 4 (drop 36 file) = ascii ''data'' \<and>
           readUInt32LE file 40 = int (length pcmData) \<and>
           drop 44 file = pcmData"
proof -
  let ?opts = "writer_options channels' rate sampleWidth'"
  let ?n = "int (length pcmData)"
  let ?file = "header_layout ?opts ?n @ pcmData"
  have n: "0 \<le> ?n" "?n + 36 < 4294967296"
    using assms(12) by simp_all
  note opts = writer_options_fits [OF assms(1-11) n]
  note fields = header_layout_fields [OF opts(1), of pcmData]
  have "saveWaveFile d filename pcmData channels' rate sampleWidth' =
          (Resolved (), d\<lparr> files := (files d)(filename \<mapsto> ?file) \<rparr>)"
    by (rule saveWaveFile_fits [OF opts(1) assms(13)])
  moreover have "length ?file = 44 + length pcmData"
    by simp
  moreover have "readUInt16LE ?file 22 = ch" "readUInt32LE ?file 24 = r"
      "readUInt32LE ?file 28 = r * ch * sw" "readUInt16LE ?file 32 = ch * sw"
      "readUInt16LE ?file 34 = sw * 8"
    using fields(7-11) opts(2-6) by simp_all
  ultimately show ?thesis
    using fields(1-6) fields(12-14) by blast
qed

theorem wav_file_layout_witness:
  "\<exists>file.
     saveWaveFile empty_disk ''test_output.wav'' [1, 2, 3, 4] (Some 1) (Some 24000) (Some 2) =
       (Resolved (), empty_disk\<lparr> files := (files empty_disk)(''test_output.wav'' \<mapsto> file) \<rparr>) \<and>
     length file = 48 \<and>
     take 4 file = ascii ''RIFF'' \<and>
     readUInt32LE file 4 = 40 \<and>
     take 4 (drop 8 file) = ascii ''WAVE'' \<and>
     take 4 (drop 12 file) = ascii ''fmt '' \<and>
     readUInt32LE file 16 = 16 \<and>
     readUInt16LE file 20 = 1 \<and>
     readUInt16LE file 22 = 1 \<and>
     readUInt32LE file 24 = 24000 \<and>
     readUInt32LE file 28 = 48000 \<and>
     readUInt16LE file 32 = 2 \<and>
     readUInt16LE file 34 = 16 \<and>
     take 4 (drop 36 file) = ascii ''data'' \<and>
     readUInt32LE file 40 = 4 \<and>
     drop 44 file = [1, 2, 3, 4]"
  using wav_file_layout [of "Some 1" 1 "Some 24000" 24000 "Some 2" 2 "[1, 2, 3, 4]"
      empty_disk "''test_output.wav''"]
  by (simp add: arg_or_def empty_disk_def)

text \<open>
  The claim as it stands fails where a value does not fit its field: with 65536 channels
  the promise is rejected and no file is written. No other treatment of the overflow
  would save the claim, since the two bytes of the channel field never read as 65536
  (\<open>readUInt16LE_bound\<close>).
\<close>

theorem wav_file_layout_counterexample:
  "saveWaveFile empty_disk ''out.wav'' [0, 0] (Some 65536) (Some 24000) (Some 2)
     = (Rejected (RangeError ''ERR_OUT_OF_RANGE''), empty_disk)"
  by (simp add: saveWaveFile_def FileWriter_new_def FileWriter_write_def FileWriter_end_def
      writer_options_def arg_or_def wav_header_def writeUInt32LE_def writeUInt16LE_def
      writeUIntLE_def)

text \<open>
  Claim C7. The bit depth handed to the writer is the sample width times 8 and nothing
  else, and it is what the bits-per-sample field of a written file reads as. The
  \<open>bitDepth\<close> of an audio configuration never reaches the encoder: saving a result gives
  the same outcome and the same disk whatever its \<open>bitDepth\<close> is, also one that is not the
  sample width times 8; and so does saving the result of a call, whatever bit depth the
  caller passed to \<open>convertTextToSpeech\<close>.
\<close>

theorem bit_depth_not_used_in_encoding:
  "wav_bitDepth (writer_options channels' rate sampleWidth') = arg_or 2 sampleWidth' * 8 \<and>
   (saveWaveFile d filename pcmData channels' rate sampleWidth' = (Resolved (), d') \<longrightarrow>
      (\<exists>file. files d' filename = Some file \<and>
         readUInt16LE file 34 = arg_or 2 sampleWidth' * 8)) \<and>
   save_result d filename (Success b64 buf (cfg\<lparr> bitDepth := b \<rparr>)) =
     save_result d filename (Success b64 buf cfg) \<and>
   (fst (convertTextToSpeech api (a\<lparr> outputAudioBitDepth := b' \<rparr>) net) = Resolved res \<and>
    fst (convertTextToSpeech api a net) = Resolved res' \<longrightarrow>
      save_result d filename res = save_result d filename res')"
proof (intro conjI impI)
  show "wav_bitDepth (writer_options channels' rate sampleWidth') = arg_or 2 sampleWidth' * 8"
    by (simp add: writer_options_def)
next
  let ?opts = "writer_options channels' rate sampleWidth'"
  let ?file = "header_layout ?opts (int (length pcmData)) @ pcmData"
  assume run: "saveWaveFile d filename pcmData channels' rate sampleWidth' = (Resolved (), d')"
  then have "fst (saveWaveFile d filename pcmData channels' rate sampleWidth') = Resolved ()"
    by simp
  then have fits: "header_fits ?opts (int (length pcmData))" and ok: "io_fault d filename = None"
    by (simp_all add: saveWaveFile_resolves_iff)
  from saveWaveFile_fits [OF fits ok] run
  have "files d' filename = Some ?file"
    by auto
  moreover have "readUInt16LE ?file 34 = arg_or 2 sampleWidth' * 8"
    using header_layout_fields(11) [OF fits, of pcmData] by (simp add: writer_options_def)
  ultimately show "\<exists>file. files d' filename = Some file \<and>
         readUInt16LE file 34 = arg_or 2 sampleWidth' * 8"
    by blast
next
  show "save_result d filename (Success b64 buf (cfg\<lparr> bitDepth := b \<rparr>)) =
     save_result d filename (Success b64 buf cfg)"
    by (simp add: save_result_def)
next
  assume h: "fst (convertTextToSpeech api (a\<lparr> outputAudioBitDepth := b' \<rparr>) net) = Resolved res \<and>
    fst (convertTextToSpeech api a net) = Resolved res'"
  have req: "tts_request (a\<lparr> outputAudioBitDepth := b' \<rparr>) = tts_request a"
    by (simp add: tts_request_def tts_modelName_def tts_voiceName_def)
  have cfg: "tts_audioConfig (a\<lparr> outputAudioBitDepth := b' \<rparr>) =
      (tts_audioConfig a)\<lparr> bitDepth := arg_or 16 b' \<rparr>"
    by (simp add: tts_audioConfig_def tts_voiceName_def)
  from h show "save_result d filename res = save_result d filename res'"
    by (auto simp add: convertTextToSpeech_def convertTextToSpeech_try_def req cfg
        tts_modelName_def save_result_def
        split: if_splits promise.splits option.splits)
qed

theorem bit_depth_not_used_in_encoding_witness:
  "fst (convertTextToSpeech (api_audio (Some ''TWFu''))
         ((tts_call ''key'' ''hello'')\<lparr> outputAudioBitDepth := Some 8 \<rparr>) [])
     = Resolved (Success ''TWFu'' [77, 97, 110]
         \<lparr> channels = 1, sampleRate = 24000, sampleWidth = 2, bitDepth = 8,
           voice = ''Zephyr'' \<rparr>) \<and>
   fst (convertTextToSpeech (api_audio (Some ''TWFu'')) (tts_call ''key'' ''hello'') [])
     = Resolved (Success ''TWFu'' [77, 97, 110]
         \<lparr> channels = 1, sampleRate = 24000, sampleWidth = 2, bitDepth = 16,
           voice = ''Zephyr'' \<rparr>) \<and>
   save_result empty_disk ''test_output.wav''
     (Success ''TWFu'' [77, 97, 110]
         \<lparr> channels = 1, sampleRate = 24000, sampleWidth = 2, bitDepth = 8,
           voice = ''Zephyr'' \<rparr>) =
   save_result empty_disk ''test_output.wav''
     (Success ''TWFu'' [77, 97, 110]
         \<lparr> channels = 1, sampleRate = 24000, sampleWidth = 2, bitDepth = 16,
           voice = ''Zephyr'' \<rparr>) \<and>
   fst (saveWaveFile empty_disk ''test_output.wav'' [77, 97, 110] (Some 1) (Some 24000) (Some 2))
     = Resolved () \<and>
   (\<exists>file.
      files (snd (saveWaveFile empty_disk ''test_output.wav'' [77, 97, 110]
                    (Some 1) (Some 24000) (Some 2))) ''test_output.wav'' = Some file \<and>
      readUInt16LE file 34 = 16)"
proof -
  let ?a = "tts_call ''key'' ''hello''"
  let ?a8 = "?a\<lparr> outputAudioBitDepth := Some 8 \<rparr>"
  let ?save = "saveWaveFile empty_disk ''test_output.wav'' [77, 97, 110]
                 (Some 1) (Some 24000) (Some 2)"
  have valid: "GEMINI_API_KEY ?a \<noteq> []" "textMessage ?a \<noteq> []" "tts_modelName ?a = supported_model"
      "GEMINI_API_KEY ?a8 \<noteq> []" "textMessage ?a8 \<noteq> []" "tts_modelName ?a8 = supported_model"
    by (simp_all add: tts_call_def tts_modelName_def arg_or_def)
  have run8: "fst (convertTextToSpeech (api_audio (Some ''TWFu'')) ?a8 [])
     = Resolved (Success ''TWFu'' [77, 97, 110]
         \<lparr> channels = 1, sampleRate = 24000, sampleWidth = 2, bitDepth = 8,
           voice = ''Zephyr'' \<rparr>)"
  proof -
    have "fst (convertTextToSpeech (api_audio (Some ''TWFu'')) ?a8 [])
       = Resolved (Success ''TWFu'' (Buffer_from_base64 ''TWFu'') (tts_audioConfig ?a8))"
      by (simp add: passed_validation [OF valid(4-6)] api_audio_def)
    then show ?thesis
      by (simp add: Buffer_from_base64_Man tts_audioConfig_def tts_voiceName_def arg_or_def
          tts_call_def)
  qed
  have run16: "fst (convertTextToSpeech (api_audio (Some ''TWFu'')) ?a [])
     = Resolved (Success ''TWFu'' [77, 97, 110]
         \<lparr> channels = 1, sampleRate = 24000, sampleWidth = 2, bitDepth = 16,
           voice = ''Zephyr'' \<rparr>)"
  proof -
    have "fst (convertTextToSpeech (api_audio (Some ''TWFu'')) ?a [])
       = Resolved (Success ''TWFu'' (Buffer_from_base64 ''TWFu'') (tts_audioConfig ?a))"
      by (simp add: passed_validation [OF valid(1-3)] api_audio_def)
    then show ?thesis
      by (simp add: Buffer_from_base64_Man tts_audioConfig_def tts_voiceName_def arg_or_def
          tts_call_def)
  qed
  have resolved: "fst ?save = Resolved ()"
    by (simp add: saveWaveFile_resolves_iff header_fits_def writer_options_def arg_or_def
        empty_disk_def)
  then have saved: "?save = (Resolved (), snd ?save)"
    by (metis prod.collapse)
  note C7 = bit_depth_not_used_in_encoding
    [where api = "api_audio (Some ''TWFu'')" and a = ?a and b' = "Some 8" and net = "[]"
       and d = empty_disk and filename = "''test_output.wav''" and pcmData = "[77, 97, 110]"
       and channels' = "Some 1" and rate = "Some 24000" and sampleWidth' = "Some 2"
       and d' = "snd ?save"]
  from C7 saved have "\<exists>file. files (snd ?save) ''test_output.wav'' = Some file \<and>
      readUInt16LE file 34 = 16"
    by (simp add: arg_or_def)
  moreover from C7 run8 run16
  have "save_result empty_disk ''test_output.wav''
     (Success ''TWFu'' [77, 97, 110]
         \<lparr> channels = 1, sampleRate = 24000, sampleWidth = 2, bitDepth = 8,
           voice = ''Zephyr'' \<rparr>) =
   save_result empty_disk ''test_output.wav''
     (Success ''TWFu'' [77, 97, 110]
         \<lparr> channels = 1, sampleRate = 24000, sampleWidth = 2, bitDepth = 16,
           voice = ''Zephyr'' \<rparr>)"
    by blast
  ultimately show ?thesis
    using run8 run16 resolved by blast
qed

text \<open>
  Claim C8, amended. For every path whose write meets no I/O error and all format
  parameters whose header values fit their fields, \<open>saveWaveFile\<close> with a PCM buffer of
  length zero resolves and leaves a file of 44 bytes that is the header alone, with chunk
  size 36 and the size of its \<open>data\<close> sub-chunk equal to 0.
\<close>

theorem empty_pcm_gives_header_only:
  assumes "arg_or 1 channels' = ch" and "arg_or 24000 rate = r" and "arg_or 2 sampleWidth' = sw"
    and "0 \<le> ch" and "ch < 65536" and "0 \<le> r" and "r < 4294967296"
    and "0 \<le> sw" and "sw * 8 < 65536"
    and "r * ch * sw < 4294967296" and "ch * sw < 65536"
    and "io_fault d filename = None"
  shows "\<exists>file.
           saveWaveFile d filename [] channels' rate sampleWidth' =
             (Resolved (), d\<lparr> files := (files d)(filename \<mapsto> file) \<rparr>) \<and>
           wav_header (writer_options channels' rate sampleWidth') 0 = Inr file \<and>
           length file = 44 \<and>
           take 4 file = ascii ''RIFF'' \<and>
           readUInt32LE file 4 = 36 \<and>
           take 4 (drop 8 file) = ascii ''WAVE'' \<and>
           take 4 (drop 12 file) = ascii ''fmt '' \<and>
           take 4 (drop 36 file) = ascii ''data'' \<and>
           readUInt32LE file 40 = 0"
proof -
  let ?opts = "writer_options channels' rate sampleWidth'"
  have fits: "header_fits ?opts 0"
    by (rule writer_options_fits(1) [OF assms(1-11)]) simp_all
  note fields = header_layout_fields [OF fits, of "[]"]
  have "saveWaveFile d filename [] channels' rate sampleWidth' =
          (Resolved (), d\<lparr> files := (files d)(filename \<mapsto> header_layout ?opts 0) \<rparr>)"
    using saveWaveFile_fits [of channels' rate sampleWidth' "[]" d filename] fits assms(12)
    by simp
  moreover have "wav_header ?opts 0 = Inr (header_layout ?opts 0)"
    by (rule wav_header_fits [OF fits])
  moreover have "length (header_layout ?opts 0) = 44"
    by simp
  ultimately show ?thesis
    using fields(1-4) fields(12,13) by auto
qed

theorem empty_pcm_gives_header_only_witness:
  "\<exists>file.
     saveWaveFile empty_disk ''silence.wav'' [] None None None =
       (Resolved (), empty_disk\<lparr> files := (files empty_disk)(''silence.wav'' \<mapsto> file) \<rparr>) \<and>
     wav_header (writer_options None None None) 0 = Inr file \<and>
     length file = 44 \<and>
     take 4 file = ascii ''RIFF'' \<and>
     readUInt32LE file 4 = 36 \<and>
     take 4 (drop 8 file) = ascii ''WAVE'' \<and>
     take 4 (drop 12 file) = ascii ''fmt '' \<and>
     take 4 (drop 36 file) = ascii ''data'' \<and>
     readUInt32LE file 40 = 0"
  using empty_pcm_gives_header_only [of None 1 None 24000 None 2 empty_disk "''silence.wav''"]
  by (simp add: arg_or_def empty_disk_def)

text \<open>
  The claim as it stands fails where a value does not fit its field: a sample rate of
  \<open>2^32\<close> rejects the promise and writes no file, also for a buffer of length zero. The
  four bytes of the sample rate field never read as \<open>2^32\<close> (\<open>readUInt32LE_bound\<close>).
\<close>

theorem empty_pcm_gives_header_only_counterexample:
  "saveWaveFile empty_disk ''silence.wav'' [] (Some 1) (Some 4294967296) (Some 2)
     = (Rejected (RangeError ''ERR_OUT_OF_RANGE''), empty_disk)"
  by (simp add: saveWaveFile_def FileWriter_new_def FileWriter_write_def FileWriter_end_def
      writer_options_def arg_or_def wav_header_def writeUInt32LE_def writeUInt16LE_def
      writeUIntLE_def)

end
